theory Spec2Isabelle
  imports Complex_Main "HOL-Library.Word" "HOL-Library.Multiset" "HOL-Library.Log_Nat"
begin

type_synonym uint64 = "64 word"

section \<open>Go strings package, as used by the analyzer\<close>

text \<open>
  Go strings are byte sequences; they are modelled as \<open>string\<close> (a \<open>char list\<close>).
  Every call of \<open>strings.Split\<close> in the repository passes a one-byte separator,
  so the model of \<open>strings.Split\<close> takes that byte.
\<close>

definition strings_HasPrefix :: "string \<Rightarrow> string \<Rightarrow> bool" where
  "strings_HasPrefix s p = (take (length p) s = p)"

fun strings_Contains :: "string \<Rightarrow> string \<Rightarrow> bool" where
  "strings_Contains [] sub = (sub = [])"
| "strings_Contains (c # cs) sub =
     (strings_HasPrefix (c # cs) sub \<or> strings_Contains cs sub)"

text \<open>\<open>strings.Index\<close>: the index of the first occurrence, or \<open>-1\<close>.\<close>

fun strings_Index :: "string \<Rightarrow> string \<Rightarrow> int" where
  "strings_Index [] sub = (if sub = [] then 0 else - 1)"
| "strings_Index (c # cs) sub =
     (if strings_HasPrefix (c # cs) sub then 0
      else (let r = strings_Index cs sub in if r < 0 then - 1 else r + 1))"

fun strings_Split :: "string \<Rightarrow> char \<Rightarrow> string list" where
  "strings_Split [] sep = [[]]"
| "strings_Split (c # cs) sep =
     (if c = sep then [] # strings_Split cs sep
      else (case strings_Split cs sep of
              [] \<Rightarrow> [[c]]
            | p # ps \<Rightarrow> (c # p) # ps))"

fun strings_Join :: "string list \<Rightarrow> string \<Rightarrow> string" where
  "strings_Join [] sep = []"
| "strings_Join [e] sep = e"
| "strings_Join (e # es) sep = e @ sep @ strings_Join es sep"

section \<open>Package name resolver (symbol\_analyzer.go)\<close>

text \<open>
  The loop \<open>for i := len(parts) - 1; i >= 0; i--\<close> of \<open>extractPackageFromSymbol\<close>.
  The second argument is \<open>i + 1\<close>, so \<open>0\<close> is the loop exit, after which the
  function returns the empty string.
\<close>

fun extractPackage_loop :: "string list \<Rightarrow> nat \<Rightarrow> string" where
  "extractPackage_loop parts 0 = []"
| "extractPackage_loop parts (Suc i) =
     (let packageName = strings_Join (take i parts) ''.'' in
      if strings_Contains packageName ''/'' \<or> packageName = ''main''
         \<or> packageName = ''runtime''
      then packageName
      else extractPackage_loop parts i)"

definition extractPackageFromSymbol :: "string \<Rightarrow> string" where
  "extractPackageFromSymbol symbolName =
     (let idx = strings_Index symbolName ''.'' in
      if idx > 0 then
        (let prefix = take (nat idx) symbolName in
         if prefix = ''runtime'' \<or> prefix = ''main'' \<or> prefix = ''go'' then prefix
         else if strings_Contains prefix ''/'' \<or> strings_Contains prefix ''.'' then
           (let parts = strings_Split symbolName CHR ''.'' in
            if length parts > 1 then extractPackage_loop parts (length parts) else [])
         else [])
      else [])"

section \<open>Data model (analyzer.go, symbol\_analyzer.go)\<close>

record ModuleEntry =
  Path :: string
  Name :: string
  Version :: string
  Size :: uint64
  SizeHuman :: string

record Section =
  sec_Name :: string
  sec_Size :: uint64
  sec_Type :: string

record Symbol =
  sym_Name :: string
  sym_Size :: uint64
  sym_Address :: uint64
  sym_Package :: string
  sym_Section :: string

section \<open>The outside world\<close>

text \<open>
  What \<open>os.Lstat\<close> reports about a file system entry: a directory, or an
  entry of another kind. \<open>IsDir\<close> is true for directories only;
  \<open>filepath.Walk\<close> uses \<open>Lstat\<close>, so a symbolic link is reported as a
  link, never as its target. \<open>info_Size\<close> is \<open>info.Size()\<close> after the
  conversion \<open>uint64(info.Size())\<close>.
\<close>

datatype FileKind = Regular | Symlink | Device

datatype FileMode = ModeDir | ModeOther FileKind

record FileInfo =
  info_Mode :: FileMode
  info_Size :: uint64

definition IsDir :: "FileInfo \<Rightarrow> bool" where
  "IsDir info = (info_Mode info = ModeDir)"

text \<open>
  The file tree below a path, as a walk sees it: an entry whose \<open>Lstat\<close> fails
  (with the error text), a non-directory of some kind and size, a directory with its
  entries in the order \<open>readDirNames\<close> yields them, or a directory whose
  entries cannot be read.
\<close>

datatype fsnode =
    LstatError string
  | NonDir FileKind uint64
  | Dir uint64 "(string \<times> fsnode) list"
  | DirUnreadable uint64 string

text \<open>The file information of an entry whose \<open>Lstat\<close> succeeds.\<close>

fun node_info :: "fsnode \<Rightarrow> FileInfo option" where
  "node_info (NonDir k sz) = Some \<lparr>info_Mode = ModeOther k, info_Size = sz\<rparr>"
| "node_info (Dir sz es) = Some \<lparr>info_Mode = ModeDir, info_Size = sz\<rparr>"
| "node_info (DirUnreadable sz e) = Some \<lparr>info_Mode = ModeDir, info_Size = sz\<rparr>"
| "node_info (LstatError e) = None"

text \<open>Build information embedded in a binary (\<open>debug.BuildInfo\<close>, \<open>debug.Module\<close>).\<close>

record Module =
  mod_Path :: string
  mod_Version :: string

record BuildInfo =
  Main :: Module
  Deps :: "Module option list"

text \<open>
  What the three parsers of the Go library make of a binary. Only the fields read by
  \<open>analyzeBinarySymbolTable\<close> are kept. A failed call (\<open>Symbols()\<close>,
  \<open>DynamicSymbols()\<close>) and a nil table are \<open>None\<close>.
\<close>

record ElfSymbol =
  elf_Name :: string
  elf_Section :: int
  elf_Value :: uint64
  elf_Size :: uint64

record ElfFile =
  elf_Symbols :: "ElfSymbol list option"
  elf_DynamicSymbols :: "ElfSymbol list option"
  elf_Sections :: "Section list"

record MachoSymbol =
  macho_Name :: string
  macho_Value :: uint64

record MachoFile =
  macho_Symtab :: "MachoSymbol list option"
  macho_Sections :: "(string \<times> uint64) list"

record PESymbol =
  pe_Name :: string
  pe_Value :: "32 word"

record PEFile =
  pe_Symbols :: "PESymbol list option"
  pe_Sections :: "(string \<times> 32 word) list"

text \<open>
  A binary file as the analyzer meets it: whether \<open>os.Open\<close> fails, what
  \<open>elf.NewFile\<close>, \<open>macho.NewFile\<close> and \<open>pe.NewFile\<close> return on it
  (\<open>None\<close> for an error), and the size \<open>os.Stat\<close> reports (\<open>None\<close> when
  \<open>os.Stat\<close> fails).
\<close>

record Binary =
  open_error :: "string option"
  as_elf :: "ElfFile option"
  as_macho :: "MachoFile option"
  as_pe :: "PEFile option"
  stat_size :: "uint64 option"

text \<open>
  Everything the code reads from its environment or calls in a library outside the
  repository: environment variables, \<open>os.Stat\<close>, the file tree below a path,
  \<open>filepath.Join\<close>, \<open>buildinfo.ReadFile\<close>, the binary at a path,
  \<open>humanize.Bytes\<close>, and the order in which a \<open>range\<close> loop visits the
  entries of a map (Go leaves it unspecified; \<open>range_order\<close> rearranges the
  entries listed in insertion order).
\<close>

record world =
  Getenv :: "string \<Rightarrow> string"
  Stat :: "string \<Rightarrow> FileInfo option"
  tree_at :: "string \<Rightarrow> fsnode"
  filepath_Join :: "string list \<Rightarrow> string"
  buildinfo_ReadFile :: "string \<Rightarrow> string + BuildInfo"
  binary_at :: "string \<Rightarrow> Binary"
  humanize_Bytes :: "uint64 \<Rightarrow> string"
  range_order :: "ModuleEntry list \<Rightarrow> ModuleEntry list"

text \<open>
  Effects are recorded as a trace, oldest event first: a line written by
  \<open>log.Printf\<close>, a call of \<open>os.Stat\<close> on a path, a walk started at a path.
\<close>

datatype event = Log string | StatCall string | WalkCall string

section \<open>sort.Slice\<close>

text \<open>
  \<open>sort.Slice\<close> sorts slices of at most 12 elements by insertion sort
  (\<open>insertionSortLessFunc\<close> of the Go library):
  \<^verbatim>\<open>for i := a + 1; i < b; i++ {
    for j := i; j > a && less(j, j-1); j-- { swap(j, j-1) } }\<close>
  \<open>bubble_left\<close> is the inner loop on the reversed sorted prefix; the model keeps
  this algorithm for longer slices, where the library switches to a quicksort whose
  result is likewise a permutation ordered by the comparison.
\<close>

fun bubble_left :: "('a \<Rightarrow> 'a \<Rightarrow> bool) \<Rightarrow> 'a \<Rightarrow> 'a list \<Rightarrow> 'a list" where
  "bubble_left lt x [] = [x]"
| "bubble_left lt x (y # ys) =
     (if lt x y then y # bubble_left lt x ys else x # y # ys)"

definition sort_Slice :: "('a \<Rightarrow> 'a \<Rightarrow> bool) \<Rightarrow> 'a list \<Rightarrow> 'a list" where
  "sort_Slice lt xs = rev (foldl (\<lambda>acc x. bubble_left lt x acc) [] xs)"

text \<open>The comparison used at every call: \<open>modules[i].Size > modules[j].Size\<close>.\<close>

definition bySizeDesc :: "ModuleEntry \<Rightarrow> ModuleEntry \<Rightarrow> bool" where
  "bySizeDesc a b = (Size b < Size a)"

section \<open>Directory size (binary analyzer)\<close>

text \<open>
  \<open>filepath.Walk\<close> of the Go library. A callback returns nil, \<open>SkipDir\<close>,
  \<open>SkipAll\<close> or another error, and updates the variables it captured (the state
  \<open>'s\<close>). It receives the path, the file information (absent when \<open>Lstat\<close>
  failed) and the error met at that path, if any.
\<close>

datatype walkerr = NoErr | SkipDir | SkipAll | Err string

fun walkerr_text :: "walkerr \<Rightarrow> string" where
  "walkerr_text NoErr = ''<nil>''"
| "walkerr_text SkipDir = ''skip this directory''"
| "walkerr_text SkipAll = ''skip everything and stop the walk''"
| "walkerr_text (Err e) = e"

type_synonym 's WalkFunc =
  "string \<Rightarrow> FileInfo option \<Rightarrow> string option \<Rightarrow> 's \<Rightarrow> walkerr \<times> 's"

fun is_dir_node :: "fsnode \<Rightarrow> bool" where
  "is_dir_node (Dir sz es) = True"
| "is_dir_node (DirUnreadable sz e) = True"
| "is_dir_node n = False"

fun lstat_failed :: "fsnode \<Rightarrow> bool" where
  "lstat_failed (LstatError e) = True"
| "lstat_failed n = False"

fun walk :: "(string list \<Rightarrow> string) \<Rightarrow> 's WalkFunc \<Rightarrow> string \<Rightarrow> fsnode \<Rightarrow> 's \<Rightarrow> walkerr \<times> 's"
and walk_names :: "(string list \<Rightarrow> string) \<Rightarrow> 's WalkFunc \<Rightarrow> string \<Rightarrow> (string \<times> fsnode) list
       \<Rightarrow> 's \<Rightarrow> walkerr \<times> 's" where
  "walk join walkFn path (NonDir k sz) s = walkFn path (node_info (NonDir k sz)) None s"
| "walk join walkFn path (LstatError e) s = walkFn path (node_info (LstatError e)) (Some e) s"
| "walk join walkFn path (DirUnreadable sz e) s =
     walkFn path (node_info (DirUnreadable sz e)) (Some e) s"
| "walk join walkFn path (Dir sz es) s =
     (case walkFn path (node_info (Dir sz es)) None s of
        (err1, s1) \<Rightarrow> if err1 \<noteq> NoErr then (err1, s1) else walk_names join walkFn path es s1)"
| "walk_names join walkFn path [] s = (NoErr, s)"
| "walk_names join walkFn path ((name, child) # rest) s =
     (case walk join walkFn (join [path, name]) child s of
        (err, s1) \<Rightarrow>
          if err = NoErr then walk_names join walkFn path rest s1
          else if err = SkipDir \<and> (lstat_failed child \<or> is_dir_node child)
          then walk_names join walkFn path rest s1
          else (err, s1))"

definition filepath_Walk :: "world \<Rightarrow> string \<Rightarrow> 's WalkFunc \<Rightarrow> 's \<Rightarrow> walkerr \<times> 's" where
  "filepath_Walk w rootPath fn s =
     (case walk (filepath_Join w) fn rootPath (tree_at w rootPath) s of
        (err, s1) \<Rightarrow> if err = SkipDir \<or> err = SkipAll then (NoErr, s1) else (err, s1))"

text \<open>The callback of \<open>calculateDirSize\<close>; its state is \<open>size\<close> and the trace.\<close>

definition calculateDirSize_fn :: "(uint64 \<times> event list) WalkFunc" where
  "calculateDirSize_fn path info err st =
     (case st of (sz, tr) \<Rightarrow>
        (case err of
           Some e \<Rightarrow> (NoErr, (sz, tr @ [Log (''Warning: could not access '' @ path @ '': '' @ e)]))
         | None \<Rightarrow>
             (case info of
                Some i \<Rightarrow> if \<not> IsDir i then (NoErr, (sz + info_Size i, tr)) else (NoErr, (sz, tr))
              | None \<Rightarrow> (NoErr, (sz, tr)))))"

definition calculateDirSize :: "world \<Rightarrow> string \<Rightarrow> uint64 \<times> event list" where
  "calculateDirSize w dir =
     (case filepath_Walk w dir calculateDirSize_fn (0, [WalkCall dir]) of
        (err, (sz, tr)) \<Rightarrow>
          if err \<noteq> NoErr
          then (sz, tr @ [Log (''Error walking directory '' @ dir @ '': '' @ walkerr_text err)])
          else (sz, tr))"

section \<open>Module size from the module cache (binary analyzer)\<close>

definition estimateModuleSize :: "world \<Rightarrow> string \<Rightarrow> string \<Rightarrow> uint64 \<times> event list" where
  "estimateModuleSize w modulePath version =
     (if version = [] \<or> version = ''(devel)'' then (0, [])
      else
        (let goPath = (if Getenv w ''GOPATH'' = []
                       then filepath_Join w [Getenv w ''HOME'', ''go'']
                       else Getenv w ''GOPATH'');
             cachePath = filepath_Join w [goPath, ''pkg'', ''mod'', modulePath @ ''@'' @ version]
         in case Stat w cachePath of
              Some stat \<Rightarrow>
                if IsDir stat
                then (case calculateDirSize w cachePath of
                        (sz, tr) \<Rightarrow> (sz, StatCall cachePath # tr))
                else (0, [StatCall cachePath])
            | None \<Rightarrow> (0, [StatCall cachePath])))"

section \<open>Go maps\<close>

text \<open>
  A Go map is modelled as an association list with one pair per key, in the order of
  first insertion. \<open>map_incr k v\<close> is \<open>m[k] += v\<close> (a missing key reads as the
  zero value) and \<open>map_assign k v\<close> is \<open>m[k] = v\<close>.
\<close>

fun map_incr :: "'k \<Rightarrow> 'v::plus \<Rightarrow> ('k \<times> 'v) list \<Rightarrow> ('k \<times> 'v) list" where
  "map_incr k v [] = [(k, v)]"
| "map_incr k v ((k', v') # m) =
     (if k' = k then (k', v' + v) # m else (k', v') # map_incr k v m)"

fun map_assign :: "'k \<Rightarrow> 'v \<Rightarrow> ('k \<times> 'v) list \<Rightarrow> ('k \<times> 'v) list" where
  "map_assign k v [] = [(k, v)]"
| "map_assign k v ((k', v') # m) =
     (if k' = k then (k', v) # m else (k', v') # map_assign k v m)"

section \<open>64-bit floating point\<close>

text \<open>
  The one floating-point expression of the repository works on non-negative values
  in the normal range of the IEEE 754 binary64 format. Such a value is a rational
  \<open>m * 2 ^ e\<close> with \<open>2 ^ 52 \<le> m < 2 ^ 53\<close>, and every operation returns the
  exact result rounded to the nearest such value, ties to the even \<open>m\<close>.
  \<open>binary_exponent x\<close> is the integer \<open>k\<close> with \<open>2 ^ k \<le> x < 2 ^ (k + 1)\<close>.
\<close>

definition round_half_even :: "rat \<Rightarrow> int" where
  "round_half_even x =
     (let f = \<lfloor>x\<rfloor>; r = x - of_int f in
      if r < 1 / 2 then f
      else if 1 / 2 < r then f + 1
      else if even f then f else f + 1)"

definition binary_exponent :: "rat \<Rightarrow> int" where
  "binary_exponent x =
     (let d = bitlen (fst (quotient_of x)) - bitlen (snd (quotient_of x))
      in if power_int 2 d \<le> x then d else d - 1)"

definition float64_round :: "rat \<Rightarrow> rat" where
  "float64_round x =
     (if x \<le> 0 then 0
      else (let e = binary_exponent x - 52;
                m = round_half_even (x / power_int 2 e)
            in of_int m * power_int 2 e))"

section \<open>Symbol table analysis (symbol\_analyzer.go)\<close>

definition estimateMachOSymbolSize :: "MachoFile \<Rightarrow> MachoSymbol \<Rightarrow> uint64" where
  "estimateMachOSymbolSize file symbol = 100"

definition sumMapValues :: "(string \<times> uint64) list \<Rightarrow> uint64" where
  "sumMapValues m = sum_list (map snd m)"

text \<open>The body of the two loops over ELF symbols (static, then dynamic).\<close>

definition elf_symbol_records :: "ElfFile \<Rightarrow> ElfSymbol list \<Rightarrow> Symbol list" where
  "elf_symbol_records elfFile syms =
     concat (map (\<lambda>sym.
       if 0 \<le> elf_Section sym \<and> elf_Section sym < int (length (elf_Sections elfFile)) then
         (let section = elf_Sections elfFile ! nat (elf_Section sym);
              name = elf_Name sym;
              pkg = extractPackageFromSymbol name
          in if pkg \<noteq> [] then
               [\<lparr>sym_Name = name, sym_Size = elf_Size sym, sym_Address = elf_Value sym,
                 sym_Package = pkg, sym_Section = sec_Name section\<rparr>]
             else [])
       else []) syms)"

definition macho_symbol_records :: "MachoFile \<Rightarrow> MachoSymbol list \<Rightarrow> Symbol list" where
  "macho_symbol_records machoFile syms =
     concat (map (\<lambda>sym.
       (let name = macho_Name sym; pkg = extractPackageFromSymbol name
        in if pkg \<noteq> [] then
             [\<lparr>sym_Name = name, sym_Size = estimateMachOSymbolSize machoFile sym,
               sym_Address = 0, sym_Package = pkg, sym_Section = []\<rparr>]
           else [])) syms)"

text \<open>
  The first part of \<open>analyzeBinarySymbolTable\<close>: the formats are tried in the order
  ELF, Mach-O, PE; the result is the values of the variables \<open>sections\<close>,
  \<open>symbols\<close> and \<open>archType\<close> when the format cascade is left. An ELF section is
  given as the \<open>Section\<close> record the code makes of it.
\<close>

definition read_symbol_table :: "Binary \<Rightarrow> Section list \<times> Symbol list \<times> string" where
  "read_symbol_table b =
     (case as_elf b of
        Some elfFile \<Rightarrow>
          (let symbols = (case elf_Symbols elfFile of
                            Some syms \<Rightarrow> elf_symbol_records elfFile syms
                          | None \<Rightarrow> []);
               sections = elf_Sections elfFile;
               symbols2 = (if length symbols = 0 then
                             (case elf_DynamicSymbols elfFile of
                                Some dynSyms \<Rightarrow> symbols @ elf_symbol_records elfFile dynSyms
                              | None \<Rightarrow> symbols)
                           else symbols)
           in (sections, symbols2, ''ELF''))
      | None \<Rightarrow>
          (case as_macho b of
             Some machoFile \<Rightarrow>
               (let symbols = (case macho_Symtab machoFile of
                                 Some syms \<Rightarrow> macho_symbol_records machoFile syms
                               | None \<Rightarrow> []);
                    sections = map (\<lambda>(n, sz). \<lparr>sec_Name = n, sec_Size = sz,
                                      sec_Type = ''section''\<rparr>) (macho_Sections machoFile)
                in (sections, symbols, ''MachO''))
           | None \<Rightarrow>
               (case as_pe b of
                  Some peFile \<Rightarrow>
                    (let sections = (case pe_Symbols peFile of
                                       Some syms \<Rightarrow>
                                         map (\<lambda>(n, sz). \<lparr>sec_Name = n, sec_Size = ucast sz,
                                                sec_Type = ''section''\<rparr>) (pe_Sections peFile)
                                     | None \<Rightarrow> [])
                     in (sections, [], ''PE''))
                | None \<Rightarrow> ([], [], []))))"

definition codeRatio :: rat where
  "codeRatio = float64_round (7 / 10)"

text \<open>
  \<open>uint64(float64(totalBinarySize) * codeRatio / float64(totalSymbols))\<close>: both
  conversions to \<open>float64\<close>, the product and the quotient round; the conversion
  back truncates.
\<close>

definition avgSymbolSize :: "uint64 \<Rightarrow> int \<Rightarrow> uint64" where
  "avgSymbolSize totalBinarySize totalSymbols =
     word_of_int \<lfloor>float64_round
        (float64_round (float64_round (of_int (uint totalBinarySize)) * codeRatio)
           / float64_round (of_int totalSymbols))\<rfloor>"

definition direct_sizes :: "Symbol list \<Rightarrow> (string \<times> uint64) list" where
  "direct_sizes symbols =
     foldl (\<lambda>pkgSizes sym. map_incr (sym_Package sym) (sym_Size sym) pkgSizes) [] symbols"

definition symbol_counts :: "Symbol list \<Rightarrow> (string \<times> int) list" where
  "symbol_counts symbols =
     foldl (\<lambda>pkgSymbolCounts sym. map_incr (sym_Package sym) 1 pkgSymbolCounts) [] symbols"

text \<open>
  The second part of \<open>analyzeBinarySymbolTable\<close>, after the check that there are
  symbols: aggregation per package and the estimate from symbol counts.
\<close>

definition aggregate_symbols :: "Symbol list \<Rightarrow> uint64 option \<Rightarrow> (string \<times> uint64) list" where
  "aggregate_symbols symbols fileStat =
     (let pkgSizes = direct_sizes symbols;
          totalSymbols = int (length symbols)
      in if totalSymbols > 0 then
           (let pkgSymbolCounts = symbol_counts symbols
            in if sumMapValues pkgSizes = 0 then
                 (case fileStat of
                    Some totalBinarySize \<Rightarrow>
                      foldl (\<lambda>m (pkg, count).
                               map_assign pkg
                                 (word_of_int count * avgSymbolSize totalBinarySize totalSymbols) m)
                        pkgSizes pkgSymbolCounts
                  | None \<Rightarrow> pkgSizes)
               else pkgSizes)
         else pkgSizes)"

definition analyzeBinarySymbolTable :: "world \<Rightarrow> string \<Rightarrow> string + (string \<times> uint64) list" where
  "analyzeBinarySymbolTable w binaryPath =
     (let b = binary_at w binaryPath in
      case open_error b of
        Some err \<Rightarrow> Inl err
      | None \<Rightarrow>
          (case read_symbol_table b of
             (sections, symbols, archType) \<Rightarrow>
               if length symbols = 0
               then Inl (''no symbols found in '' @ archType @ '' binary'')
               else Inr (aggregate_symbols symbols (stat_size b))))"

section \<open>Report from a binary (binary analyzer)\<close>

text \<open>
  The size of one module entry: the symbol table's figure when it is present and
  positive, the module cache's otherwise.
\<close>

definition module_size :: "world \<Rightarrow> (string \<times> uint64) list \<Rightarrow> string \<Rightarrow> string \<Rightarrow> uint64 \<times> event list" where
  "module_size w pkgSizes path version =
     (case map_of pkgSizes path of
        Some s \<Rightarrow> if s > 0 then (s, []) else estimateModuleSize w path version
      | None \<Rightarrow> estimateModuleSize w path version)"

definition module_entry :: "world \<Rightarrow> (string \<times> uint64) list \<Rightarrow> Module \<Rightarrow> ModuleEntry \<times> event list" where
  "module_entry w pkgSizes m =
     (case module_size w pkgSizes (mod_Path m) (mod_Version m) of
        (sz, tr) \<Rightarrow>
          (\<lparr>Path = mod_Path m, Name = mod_Path m, Version = mod_Version m,
            Size = sz, SizeHuman = humanize_Bytes w sz\<rparr>, tr))"

fun dep_entries :: "world \<Rightarrow> (string \<times> uint64) list \<Rightarrow> Module option list \<Rightarrow> ModuleEntry list \<times> event list" where
  "dep_entries w pkgSizes [] = ([], [])"
| "dep_entries w pkgSizes (None # deps) = dep_entries w pkgSizes deps"
| "dep_entries w pkgSizes (Some dep # deps) =
     (case module_entry w pkgSizes dep of
        (depModule, tr) \<Rightarrow>
          (case dep_entries w pkgSizes deps of
             (modules, tr2) \<Rightarrow> (depModule # modules, tr @ tr2)))"

text \<open>
  \<open>ProcessBinary\<close> returns the report and the trace; \<open>Inl\<close> is \<open>log.Fatalf\<close>,
  which ends the process with the message.
\<close>

definition ProcessBinary :: "world \<Rightarrow> string \<Rightarrow> (string + ModuleEntry list) \<times> event list" where
  "ProcessBinary w binaryPath =
     (case buildinfo_ReadFile w binaryPath of
        Inl err \<Rightarrow>
          (Inl (''Error reading build info from binary '' @ binaryPath @ '': '' @ err), [])
      | Inr info \<Rightarrow>
          (let (pkgSizes, tr0) =
                 (case analyzeBinarySymbolTable w binaryPath of
                    Inl err \<Rightarrow> ([], [Log (''Warning: Could not analyze symbol table: '' @ err)])
                  | Inr m \<Rightarrow> (m, []));
               (mainModules, tr1) =
                 (if mod_Path (Main info) \<noteq> [] then
                    (case module_entry w pkgSizes (Main info) of
                       (mainModule, tr) \<Rightarrow> ([mainModule], tr))
                  else ([], []));
               (depModules, tr2) = dep_entries w pkgSizes (Deps info)
           in (Inr (sort_Slice bySizeDesc (mainModules @ depModules)), tr0 @ tr1 @ tr2)))"

section \<open>Rollup to top-level packages (main package)\<close>

definition getTopLevelPackage :: "string \<Rightarrow> string" where
  "getTopLevelPackage fullPackageName =
     (if strings_HasPrefix fullPackageName ''runtime'' then ''runtime''
      else if strings_HasPrefix fullPackageName ''internal/'' then ''internal/*''
      else if strings_HasPrefix fullPackageName ''vendor/'' then ''vendor/*''
      else if strings_Contains fullPackageName ''.'' \<or> strings_Contains fullPackageName ''/'' then
        (let parts = strings_Split fullPackageName CHR ''/'' in
         if length parts > 0 then
           (if strings_Contains (parts ! 0) ''.'' then
              (if length parts \<ge> 2 then strings_Join (take 2 parts) ''/'' else parts ! 0)
            else if length parts \<ge> 2 then strings_Join (take 2 parts) ''/''
            else parts ! 0)
         else fullPackageName)
      else fullPackageName)"

text \<open>
  One round of the first loop of \<open>aggregateByTopLevelPackage\<close> on the map
  \<open>aggregated\<close>: add to the entry stored under \<open>topLevel\<close>, or store a new one.
  The stored entries are new objects, so the input entries are not changed.
\<close>

fun aggregate_put :: "world \<Rightarrow> string \<Rightarrow> ModuleEntry \<Rightarrow> (string \<times> ModuleEntry) list
      \<Rightarrow> (string \<times> ModuleEntry) list" where
  "aggregate_put w topLevel entry [] =
     [(topLevel, \<lparr>Path = topLevel, Name = topLevel, Version = [], Size = Size entry,
                  SizeHuman = humanize_Bytes w (Size entry)\<rparr>)]"
| "aggregate_put w topLevel entry ((k, existing) # rest) =
     (if k = topLevel then
        (k, existing\<lparr>Size := Size existing + Size entry,
                      SizeHuman := humanize_Bytes w (Size existing + Size entry)\<rparr>) # rest
      else (k, existing) # aggregate_put w topLevel entry rest)"

definition aggregated_map :: "world \<Rightarrow> ModuleEntry list \<Rightarrow> (string \<times> ModuleEntry) list" where
  "aggregated_map w modules =
     foldl (\<lambda>aggregated entry.
              aggregate_put w (getTopLevelPackage (Name entry)) entry aggregated) [] modules"

definition aggregateByTopLevelPackage :: "world \<Rightarrow> ModuleEntry list \<Rightarrow> ModuleEntry list" where
  "aggregateByTopLevelPackage w modules =
     sort_Slice bySizeDesc (range_order w (map snd (aggregated_map w modules)))"

section \<open>Report from a build directory (analyzer.go)\<close>


section \<open>Properties named by the specification\<close>




text \<open>
  The sizes a walk can reach below a node: those of the entries that are not
  directories and whose \<open>Lstat\<close> succeeds, in directories that can be read.
  \<open>regular_sizes\<close> keeps the regular files among them.
\<close>

fun reachable_sizes :: "fsnode \<Rightarrow> uint64 list"
and reachable_sizes_in :: "(string \<times> fsnode) list \<Rightarrow> uint64 list" where
  "reachable_sizes (NonDir k sz) = [sz]"
| "reachable_sizes (LstatError e) = []"
| "reachable_sizes (DirUnreadable sz e) = []"
| "reachable_sizes (Dir sz es) = reachable_sizes_in es"
| "reachable_sizes_in [] = []"
| "reachable_sizes_in ((name, child) # rest) = reachable_sizes child @ reachable_sizes_in rest"

fun regular_sizes :: "fsnode \<Rightarrow> uint64 list"
and regular_sizes_in :: "(string \<times> fsnode) list \<Rightarrow> uint64 list" where
  "regular_sizes (NonDir k sz) = (if k = Regular then [sz] else [])"
| "regular_sizes (LstatError e) = []"
| "regular_sizes (DirUnreadable sz e) = []"
| "regular_sizes (Dir sz es) = regular_sizes_in es"
| "regular_sizes_in [] = []"
| "regular_sizes_in ((name, child) # rest) = regular_sizes child @ regular_sizes_in rest"

text \<open>The warnings a walk logs: one for each entry it cannot access.\<close>

fun access_warnings :: "(string list \<Rightarrow> string) \<Rightarrow> string \<Rightarrow> fsnode \<Rightarrow> event list"
and access_warnings_in :: "(string list \<Rightarrow> string) \<Rightarrow> string \<Rightarrow> (string \<times> fsnode) list \<Rightarrow> event list" where
  "access_warnings join path (NonDir k sz) = []"
| "access_warnings join path (LstatError e) =
     [Log (''Warning: could not access '' @ path @ '': '' @ e)]"
| "access_warnings join path (DirUnreadable sz e) =
     [Log (''Warning: could not access '' @ path @ '': '' @ e)]"
| "access_warnings join path (Dir sz es) = access_warnings_in join path es"
| "access_warnings_in join path [] = []"
| "access_warnings_in join path ((name, child) # rest) =
     access_warnings join (join [path, name]) child @ access_warnings_in join path rest"

text \<open>
  The module paths of a build information record that \<open>ProcessBinary\<close> turns into
  entries: the main module when its path is not empty, then the dependencies that
  are not nil.
\<close>

definition provenance_names :: "BuildInfo \<Rightarrow> string list" where
  "provenance_names info =
     (if mod_Path (Main info) \<noteq> [] then [mod_Path (Main info)] else [])
     @ map mod_Path (List.map_filter (\<lambda>dep. dep) (Deps info))"

section \<open>Example worlds\<close>

text \<open>
  \<open>filepath.Join\<close> on clean path elements: the non-empty elements, separated by
  a slash. \<open>humanize.Bytes\<close> below 1000 bytes: the decimal number and \<open>B\<close>.
\<close>

definition example_Join :: "string list \<Rightarrow> string" where
  "example_Join elems = strings_Join (filter (\<lambda>e. e \<noteq> []) elems) ''/''"

definition example_humanize :: "uint64 \<Rightarrow> string" where
  "example_humanize s =
     (let n = unat s; d = (\<lambda>i. ''0123456789'' ! i) in
      (if n < 10 then [d n]
       else if n < 100 then [d (n div 10), d (n mod 10)]
       else [d (n div 100 mod 10), d (n div 10 mod 10), d (n mod 10)]) @ '' B'')"

definition no_binary :: Binary where
  "no_binary = \<lparr>open_error = Some ''no such file or directory'', as_elf = None,
                 as_macho = None, as_pe = None, stat_size = None\<rparr>"

text \<open>A world with an empty file system and no environment variables.\<close>

definition bare_world :: world where
  "bare_world =
     \<lparr>Getenv = (\<lambda>name. []),
      Stat = (\<lambda>path. None),
      tree_at = (\<lambda>path. LstatError ''no such file or directory''),
      filepath_Join = example_Join,
      buildinfo_ReadFile = (\<lambda>path. Inl ''no such file or directory''),
      binary_at = (\<lambda>path. no_binary),
      humanize_Bytes = example_humanize,
      range_order = (\<lambda>entries. entries)\<rparr>"

text \<open>An ELF executable without symbol tables.\<close>

definition stripped_elf :: Binary where
  "stripped_elf =
     \<lparr>open_error = None,
      as_elf = Some \<lparr>elf_Symbols = None, elf_DynamicSymbols = None,
                     elf_Sections = [\<lparr>sec_Name = ''.text'', sec_Size = 4096,
                                       sec_Type = ''SHT_PROGBITS''\<rparr>]\<rparr>,
      as_macho = None, as_pe = None, stat_size = Some 8192\<rparr>"

text \<open>
  A stripped executable of the module \<open>example.com/b\<close> with the dependency
  \<open>example.com/a\<close>, which is not in the module cache.
\<close>

definition tie_info :: BuildInfo where
  "tie_info =
     \<lparr>Main = \<lparr>mod_Path = ''example.com/b'', mod_Version = ''(devel)''\<rparr>,
      Deps = [Some \<lparr>mod_Path = ''example.com/a'', mod_Version = ''v1.0.0''\<rparr>]\<rparr>"

definition tie_world :: world where
  "tie_world = bare_world
     \<lparr>buildinfo_ReadFile := (\<lambda>path. Inr tie_info), binary_at := (\<lambda>path. stripped_elf)\<rparr>"





text \<open>The values of \<open>symbols\<close>, \<open>sections\<close> and \<open>archType\<close> after the format cascade.\<close>

definition symbols_read :: "Binary \<Rightarrow> Symbol list" where
  "symbols_read b = fst (snd (read_symbol_table b))"

definition sections_read :: "Binary \<Rightarrow> Section list" where
  "sections_read b = fst (read_symbol_table b)"

definition archType_read :: "Binary \<Rightarrow> string" where
  "archType_read b = snd (snd (read_symbol_table b))"

text \<open>A Mach-O executable with two symbols, one of them of the package \<open>main\<close>.\<close>

definition macho_file :: MachoFile where
  "macho_file =
     \<lparr>macho_Symtab = Some [\<lparr>macho_Name = ''main.main'', macho_Value = 4096\<rparr>,
                            \<lparr>macho_Name = ''_start'', macho_Value = 0\<rparr>],
      macho_Sections = [(''__text'', 2048)]\<rparr>"

definition macho_binary :: Binary where
  "macho_binary =
     \<lparr>open_error = None, as_elf = None, as_macho = Some macho_file,
      as_pe = None, stat_size = Some 8192\<rparr>"

text \<open>A PE executable with a COFF symbol table.\<close>

definition pe_file :: PEFile where
  "pe_file =
     \<lparr>pe_Symbols = Some [\<lparr>pe_Name = ''main.main'', pe_Value = 0\<rparr>],
      pe_Sections = [(''.text'', 2048)]\<rparr>"

definition pe_binary :: Binary where
  "pe_binary =
     \<lparr>open_error = None, as_elf = None, as_macho = None,
      as_pe = Some pe_file, stat_size = Some 8192\<rparr>"

definition pe_world :: world where
  "pe_world = bare_world
     \<lparr>buildinfo_ReadFile := (\<lambda>path. Inr tie_info), binary_at := (\<lambda>path. pe_binary)\<rparr>"

text \<open>
  A module directory with a regular file, a symbolic link, a directory that cannot
  be read, an entry whose \<open>Lstat\<close> fails and a subdirectory; beside it an empty
  directory.
\<close>

definition module_tree :: fsnode where
  "module_tree =
     Dir 4096
       [(''a.go'', NonDir Regular 120),
        (''link'', NonDir Symlink 11),
        (''locked'', DirUnreadable 4096 ''permission denied''),
        (''secret'', LstatError ''permission denied''),
        (''sub'', Dir 4096 [(''b.go'', NonDir Regular 30)])]"

definition tree_world :: world where
  "tree_world = bare_world
     \<lparr>tree_at := (\<lambda>path. if path = ''mod'' then module_tree
                           else if path = ''empty'' then Dir 4096 []
                           else LstatError ''no such file or directory'')\<rparr>"





text \<open>A report with two modules of one organisation, and a world whose maps are visited backwards.\<close>

definition rollup_input :: "ModuleEntry list" where
  "rollup_input =
     [\<lparr>Path = ''github.com/x/a'', Name = ''github.com/x/a'', Version = ''v1.0.0'',
       Size = 300, SizeHuman = ''300 B''\<rparr>,
      \<lparr>Path = ''runtime'', Name = ''runtime'', Version = [],
       Size = 500, SizeHuman = ''500 B''\<rparr>,
      \<lparr>Path = ''github.com/x/b'', Name = ''github.com/x/b'', Version = ''v1.1.0'',
       Size = 450, SizeHuman = ''450 B''\<rparr>]"

definition rev_world :: world where
  "rev_world = bare_world\<lparr>range_order := rev\<rparr>"

section \<open>Auxiliary facts\<close>

subsection \<open>Sorting\<close>

lemma mset_bubble_left: "mset (bubble_left lt x ys) = add_mset x (mset ys)"
  by (induction ys) auto

lemma mset_insertion_fold:
  "mset (foldl (\<lambda>acc x. bubble_left lt x acc) acc xs) = mset acc + mset xs"
  by (induction xs arbitrary: acc) (auto simp: mset_bubble_left)

lemma mset_sort_Slice: "mset (sort_Slice lt xs) = mset xs"
  by (simp add: sort_Slice_def mset_insertion_fold)





subsection \<open>The report of ProcessBinary\<close>

lemma names_dep_entries:
  "map Name (fst (dep_entries w ps deps)) = map mod_Path (List.map_filter (\<lambda>dep. dep) deps)"
proof (induction deps)
  case Nil
  show ?case by (simp add: List.map_filter_simps)
next
  case (Cons d deps)
  show ?case
  proof (cases d)
    case None
    with Cons show ?thesis by (simp add: List.map_filter_simps)
  next
    case (Some dep)
    obtain e tr where e: "module_entry w ps dep = (e, tr)"
      by (cases "module_entry w ps dep")
    obtain es trs where es: "dep_entries w ps deps = (es, trs)"
      by (cases "dep_entries w ps deps")
    have "Name e = mod_Path dep"
      using e by (auto simp: module_entry_def split: prod.splits)
    with Cons Some e es show ?thesis by (simp add: List.map_filter_simps)
  qed
qed

lemma ProcessBinary_report:
  assumes "buildinfo_ReadFile w p = Inr info"
  shows "\<exists>entries. fst (ProcessBinary w p) = Inr (sort_Slice bySizeDesc entries)
           \<and> map Name entries = provenance_names info"
proof -
  define ps where "ps = (case analyzeBinarySymbolTable w p of Inl err \<Rightarrow> [] | Inr m \<Rightarrow> m)"
  define mainModules where "mainModules =
     (if mod_Path (Main info) \<noteq> [] then [fst (module_entry w ps (Main info))] else [])"
  have main_names:
    "map Name mainModules = (if mod_Path (Main info) \<noteq> [] then [mod_Path (Main info)] else [])"
    by (auto simp: mainModules_def module_entry_def split: prod.splits)
  have "fst (ProcessBinary w p) =
          Inr (sort_Slice bySizeDesc (mainModules @ fst (dep_entries w ps (Deps info))))"
    using assms
    by (auto simp: ProcessBinary_def ps_def mainModules_def Let_def split: prod.splits sum.splits)
  moreover have "map Name (mainModules @ fst (dep_entries w ps (Deps info))) = provenance_names info"
    by (simp add: main_names names_dep_entries provenance_names_def)
  ultimately show ?thesis by blast
qed




section \<open>The claims\<close>

text \<open>
  C1. The resolver's examples. On \<open>runtime.newobject\<close> the resolver returns
  \<open>runtime\<close> and on \<open>tmp42\<close> the empty string, as the specification says. On
  \<open>github.com/acme/foo.Bar\<close> it returns the empty string, not
  \<open>github.com/acme/foo\<close>: the segment before the first dot is \<open>github\<close>, which
  holds neither a slash nor a dot, so the walk over the prefixes is never started.
\<close>

theorem extractPackageFromSymbol_examples:
  "extractPackageFromSymbol ''runtime.newobject'' = ''runtime''
   \<and> extractPackageFromSymbol ''tmp42'' = []
   \<and> extractPackageFromSymbol ''github.com/acme/foo.Bar'' = []
   \<and> extractPackageFromSymbol ''github.com/acme/foo.Bar'' \<noteq> ''github.com/acme/foo''"
  by (simp add: extractPackageFromSymbol_def strings_HasPrefix_def)







text \<open>
  C3. As stated, the claim fails: for a binary that parses but yields no symbol
  record, \<open>analyzeBinarySymbolTable\<close> returns an error and no map, here for an
  ELF executable without symbol tables.
\<close>

theorem no_symbols_is_an_error:
  "open_error (binary_at tie_world ''app'') = None
   \<and> as_elf (binary_at tie_world ''app'') \<noteq> None
   \<and> symbols_read (binary_at tie_world ''app'') = []
   \<and> analyzeBinarySymbolTable tie_world ''app'' = Inl ''no symbols found in ELF binary''
   \<and> analyzeBinarySymbolTable tie_world ''app'' \<noteq> Inr []"
  by code_simp

text \<open>
  C3, amended. When the binary can be opened and no symbol record is read from it,
  \<open>analyzeBinarySymbolTable\<close> returns the error \<open>no symbols found in F binary\<close>,
  where \<open>F\<close> is the format name (empty when no format was recognised). When the
  build information can be read, \<open>ProcessBinary\<close> logs that error as a warning and
  still returns a report, with one entry for each module of the build information.
\<close>

theorem no_symbols_error_logged_as_warning:
  assumes "open_error (binary_at w p) = None"
      and "symbols_read (binary_at w p) = []"
      and "buildinfo_ReadFile w p = Inr info"
  shows "analyzeBinarySymbolTable w p =
           Inl (''no symbols found in '' @ archType_read (binary_at w p) @ '' binary'')
     \<and> (\<exists>report tr. ProcessBinary w p =
           (Inr report, Log (''Warning: Could not analyze symbol table: no symbols found in ''
                               @ archType_read (binary_at w p) @ '' binary'') # tr)
         \<and> mset (map Name report) = mset (provenance_names info))"
proof -
  have a: "analyzeBinarySymbolTable w p =
           Inl (''no symbols found in '' @ archType_read (binary_at w p) @ '' binary'')"
    using assms(1,2)
    by (auto simp: analyzeBinarySymbolTable_def symbols_read_def archType_read_def Let_def
        split: prod.splits)
  from ProcessBinary_report [OF assms(3)] obtain entries where
    run: "fst (ProcessBinary w p) = Inr (sort_Slice bySizeDesc entries)"
    and names: "map Name entries = provenance_names info" by blast
  have m: "mset (map Name (sort_Slice bySizeDesc entries)) = mset (provenance_names info)"
    using names mset_sort_Slice [of bySizeDesc entries] by (metis mset_map)
  have "\<exists>tr. snd (ProcessBinary w p) =
           Log (''Warning: Could not analyze symbol table: no symbols found in ''
                               @ archType_read (binary_at w p) @ '' binary'') # tr"
    using assms(3) a by (simp add: ProcessBinary_def Let_def split: prod.splits)
  with run m show ?thesis using a by (metis prod.collapse)
qed

theorem no_symbols_error_logged_as_warning_witness:
  "open_error (binary_at tie_world ''app'') = None
   \<and> symbols_read (binary_at tie_world ''app'') = []
   \<and> buildinfo_ReadFile tie_world ''app'' = Inr tie_info
   \<and> archType_read (binary_at tie_world ''app'') = ''ELF''
   \<and> analyzeBinarySymbolTable tie_world ''app'' = Inl ''no symbols found in ELF binary''"
proof -
  have h1: "open_error (binary_at tie_world ''app'') = None" by code_simp
  have h2: "symbols_read (binary_at tie_world ''app'') = []" by code_simp
  have h3: "buildinfo_ReadFile tie_world ''app'' = Inr tie_info"
    by (simp add: tie_world_def bare_world_def)
  have h4: "archType_read (binary_at tie_world ''app'') = ''ELF''" by code_simp
  from no_symbols_error_logged_as_warning [OF h1 h2 h3] h1 h2 h3 h4 show ?thesis by simp
qed

lemma macho_binary_read:
  "read_symbol_table macho_binary =
     ([\<lparr>sec_Name = ''__text'', sec_Size = 2048, sec_Type = ''section''\<rparr>],
      [\<lparr>sym_Name = ''main.main'', sym_Size = 100, sym_Address = 0,
        sym_Package = ''main'', sym_Section = []\<rparr>],
      ''MachO'')"
  by code_simp

text \<open>
  C5. As stated, the claim fails: the record made of a Mach-O symbol has size 100,
  the value of \<open>estimateMachOSymbolSize\<close>, not 0.
\<close>

theorem macho_symbol_size_not_zero:
  "map sym_Size (symbols_read macho_binary) = [100]
   \<and> \<not> list_all (\<lambda>s. sym_Size s = 0) (symbols_read macho_binary)"
  by (simp add: symbols_read_def macho_binary_read)

text \<open>
  C5, amended. Every symbol record read from a Mach-O binary has the recorded size
  100: the symbol reader itself substitutes this fixed estimate.
\<close>

theorem macho_symbol_size_is_100:
  assumes "as_elf b = None" and "as_macho b = Some machoFile"
    and "s \<in> set (symbols_read b)"
  shows "sym_Size s = 100"
  using assms
  by (auto simp: symbols_read_def read_symbol_table_def macho_symbol_records_def
      estimateMachOSymbolSize_def Let_def split: option.splits if_splits)

theorem macho_symbol_size_is_100_witness:
  "as_elf macho_binary = None
   \<and> as_macho macho_binary = Some macho_file
   \<and> hd (symbols_read macho_binary) \<in> set (symbols_read macho_binary)
   \<and> sym_Size (hd (symbols_read macho_binary)) = 100"
proof -
  have a: "as_elf macho_binary = None" by (simp add: macho_binary_def)
  have b: "as_macho macho_binary = Some macho_file" by (simp add: macho_binary_def)
  have c: "hd (symbols_read macho_binary) \<in> set (symbols_read macho_binary)"
    by (simp add: symbols_read_def macho_binary_read)
  from macho_symbol_size_is_100 [OF a b c] a b c show ?thesis by simp
qed

text \<open>
  C10. For a binary that is opened and recognised as PE (neither the ELF nor the
  Mach-O parser accepts it), no symbol record is collected; section records are
  collected when the file has a COFF symbol table; and the analysis returns the
  error \<open>no symbols found in PE binary\<close>.
\<close>

theorem pe_never_yields_symbols:
  assumes "open_error (binary_at w p) = None"
    and "as_elf (binary_at w p) = None" and "as_macho (binary_at w p) = None"
    and "as_pe (binary_at w p) = Some peFile"
  shows "symbols_read (binary_at w p) = []
    \<and> sections_read (binary_at w p) =
        (case pe_Symbols peFile of
           None \<Rightarrow> []
         | Some syms \<Rightarrow>
             map (\<lambda>(n, sz). \<lparr>sec_Name = n, sec_Size = ucast sz, sec_Type = ''section''\<rparr>)
               (pe_Sections peFile))
    \<and> analyzeBinarySymbolTable w p = Inl ''no symbols found in PE binary''"
  using assms
  by (simp add: symbols_read_def sections_read_def read_symbol_table_def
      analyzeBinarySymbolTable_def Let_def)

theorem pe_never_yields_symbols_witness:
  "open_error (binary_at pe_world ''app.exe'') = None
   \<and> as_elf (binary_at pe_world ''app.exe'') = None
   \<and> as_macho (binary_at pe_world ''app.exe'') = None
   \<and> as_pe (binary_at pe_world ''app.exe'') = Some pe_file
   \<and> symbols_read (binary_at pe_world ''app.exe'') = []
   \<and> sections_read (binary_at pe_world ''app.exe'') =
       [\<lparr>sec_Name = ''.text'', sec_Size = 2048, sec_Type = ''section''\<rparr>]
   \<and> analyzeBinarySymbolTable pe_world ''app.exe'' = Inl ''no symbols found in PE binary''"
proof -
  have b: "binary_at pe_world ''app.exe'' = pe_binary"
    by (simp add: pe_world_def bare_world_def)
  have h1: "open_error (binary_at pe_world ''app.exe'') = None"
    and h2: "as_elf (binary_at pe_world ''app.exe'') = None"
    and h3: "as_macho (binary_at pe_world ''app.exe'') = None"
    and h4: "as_pe (binary_at pe_world ''app.exe'') = Some pe_file"
    by (simp_all add: b pe_binary_def)
  from pe_never_yields_symbols [OF h1 h2 h3 h4] h1 h2 h3 h4 show ?thesis
    by (simp add: pe_file_def)
qed

subsection \<open>The walk of calculateDirSize\<close>

lemma walk_calculateDirSize_fn:
  "walk join calculateDirSize_fn path node (sz, tr) =
     (NoErr, (sz + sum_list (reachable_sizes node), tr @ access_warnings join path node))"
  "walk_names join calculateDirSize_fn path es (sz, tr) =
     (NoErr, (sz + sum_list (reachable_sizes_in es), tr @ access_warnings_in join path es))"
  by (induction node and es arbitrary: path sz tr and path sz tr
      rule: reachable_sizes_reachable_sizes_in.induct)
     (auto simp: calculateDirSize_fn_def IsDir_def add.assoc)

lemma calculateDirSize_eq:
  "calculateDirSize w dir =
     (sum_list (reachable_sizes (tree_at w dir)),
      WalkCall dir # access_warnings (filepath_Join w) dir (tree_at w dir))"
  by (simp add: calculateDirSize_def filepath_Walk_def walk_calculateDirSize_fn)

lemma module_tree_run:
  "calculateDirSize tree_world ''mod'' =
     (161, [WalkCall ''mod'',
            Log ''Warning: could not access mod/locked: permission denied'',
            Log ''Warning: could not access mod/secret: permission denied''])"
  by code_simp

text \<open>
  C8. As stated, the claim fails in its last part: the walk adds the size of every
  entry that is not a directory, so a symbolic link (which \<open>Lstat\<close> does not
  follow) is counted with the regular files. Here the regular files that can be
  reached have 150 bytes together and the result is 161.
\<close>

theorem dir_size_counts_symlink:
  "fst (calculateDirSize tree_world ''mod'') = 161
   \<and> sum_list (regular_sizes (tree_at tree_world ''mod'')) = 150"
  using module_tree_run by (simp add: tree_world_def bare_world_def module_tree_def)

text \<open>
  C8, amended. \<open>calculateDirSize\<close> always returns a size and never logs a failed
  walk: the result is the sum (in \<open>uint64\<close>) of the sizes of all entries that are
  not directories and can be reached, and the trace is the walk followed by one
  warning for each entry that cannot be accessed. On an empty directory the result
  is 0 with no warning; on a missing path it is 0 with one warning.
\<close>

theorem calculateDirSize_sums_reachable:
  "calculateDirSize w dir =
     (sum_list (reachable_sizes (tree_at w dir)),
      WalkCall dir # access_warnings (filepath_Join w) dir (tree_at w dir))
   \<and> (tree_at w dir = Dir sz [] \<longrightarrow> calculateDirSize w dir = (0, [WalkCall dir]))
   \<and> (tree_at w dir = LstatError e \<longrightarrow>
        calculateDirSize w dir =
          (0, [WalkCall dir, Log (''Warning: could not access '' @ dir @ '': '' @ e)]))"
  by (simp add: calculateDirSize_eq)

theorem calculateDirSize_sums_reachable_witness:
  "tree_at tree_world ''empty'' = Dir 4096 []
   \<and> calculateDirSize tree_world ''empty'' = (0, [WalkCall ''empty''])
   \<and> tree_at tree_world ''missing'' = LstatError ''no such file or directory''
   \<and> calculateDirSize tree_world ''missing'' =
       (0, [WalkCall ''missing'',
            Log ''Warning: could not access missing: no such file or directory''])
   \<and> sum_list (reachable_sizes (tree_at tree_world ''mod'')) = 161"
proof -
  have e: "tree_at tree_world ''empty'' = Dir 4096 []"
    by (simp add: tree_world_def bare_world_def)
  have m: "tree_at tree_world ''missing'' = LstatError ''no such file or directory''"
    by (simp add: tree_world_def bare_world_def)
  from calculateDirSize_sums_reachable [of tree_world "''empty''" 4096 "[]"]
       calculateDirSize_sums_reachable [of tree_world "''missing''" 0 "''no such file or directory''"]
       calculateDirSize_sums_reachable [of tree_world "''mod''" 0 "[]"]
       e m module_tree_run
  show ?thesis by simp
qed



subsection \<open>Maps and the estimate from symbol counts\<close>
















subsection \<open>Sums over the rollup\<close>

lemma sum_aggregate_put:
  "sum_list (map (Size \<circ> snd) (aggregate_put w k entry agg)) =
     sum_list (map (Size \<circ> snd) agg) + Size entry"
  by (induction agg) (auto simp: add.assoc)

lemma sum_aggregate_fold:
  "sum_list (map (Size \<circ> snd)
      (foldl (\<lambda>aggregated entry. aggregate_put w (key entry) entry aggregated) agg modules)) =
     sum_list (map (Size \<circ> snd) agg) + sum_list (map Size modules)"
  by (induction modules arbitrary: agg) (auto simp: sum_aggregate_put add.assoc)

lemma sum_aggregated_map:
  "sum_list (map Size (map snd (aggregated_map w modules))) = sum_list (map Size modules)"
  using sum_aggregate_fold [of w "\<lambda>entry. getTopLevelPackage (Name entry)" "[]" modules]
  by (simp add: aggregated_map_def)

lemma sum_list_mset_eq:
  fixes xs ys :: "ModuleEntry list"
  assumes "mset xs = mset ys"
  shows "sum_list (map Size xs) = sum_list (map Size ys)"
proof -
  have "sum_mset (image_mset Size (mset xs)) = sum_mset (image_mset Size (mset ys))"
    using assms by simp
  then show ?thesis by (simp add: sum_mset_sum_list flip: mset_map)
qed

lemma nat_sum_aggregate_put:
  "(\<Sum>p\<leftarrow>agg. unat (Size (snd p))) + unat (Size entry) < 2 ^ 64 \<Longrightarrow>
   (\<Sum>p\<leftarrow>aggregate_put w k entry agg. unat (Size (snd p))) =
     (\<Sum>p\<leftarrow>agg. unat (Size (snd p))) + unat (Size entry)"
proof (induction agg)
  case Nil
  show ?case by simp
next
  case (Cons p agg)
  obtain k' existing where p: "p = (k', existing)" by (cases p)
  show ?case
  proof (cases "k' = k")
    case True
    from Cons.prems p have "unat (Size existing) + unat (Size entry) < 2 ^ LENGTH(64)"
      by simp
    then have "unat (Size existing + Size entry) = unat (Size existing) + unat (Size entry)"
      using unat_add_lem [of "Size existing" "Size entry"] by blast
    with True p show ?thesis by simp
  next
    case False
    from Cons.prems p have "(\<Sum>p\<leftarrow>agg. unat (Size (snd p))) + unat (Size entry) < 2 ^ 64"
      by simp
    from Cons.IH [OF this] False p show ?thesis by simp
  qed
qed

lemma nat_sum_aggregate_fold:
  "(\<Sum>p\<leftarrow>agg. unat (Size (snd p))) + (\<Sum>e\<leftarrow>modules. unat (Size e)) < 2 ^ 64 \<Longrightarrow>
   (\<Sum>p\<leftarrow>foldl (\<lambda>aggregated entry. aggregate_put w (key entry) entry aggregated) agg modules.
        unat (Size (snd p))) =
     (\<Sum>p\<leftarrow>agg. unat (Size (snd p))) + (\<Sum>e\<leftarrow>modules. unat (Size e))"
proof (induction modules arbitrary: agg)
  case Nil
  show ?case by simp
next
  case (Cons m modules)
  from Cons.prems have a: "(\<Sum>p\<leftarrow>agg. unat (Size (snd p))) + unat (Size m) < 2 ^ 64"
    by simp
  have b: "(\<Sum>p\<leftarrow>aggregate_put w (key m) m agg. unat (Size (snd p))) =
        (\<Sum>p\<leftarrow>agg. unat (Size (snd p))) + unat (Size m)"
    by (rule nat_sum_aggregate_put [OF a])
  with Cons.prems have "(\<Sum>p\<leftarrow>aggregate_put w (key m) m agg. unat (Size (snd p)))
      + (\<Sum>e\<leftarrow>modules. unat (Size e)) < 2 ^ 64" by simp
  from Cons.IH [OF this] b show ?case by simp
qed

lemma nat_sum_mset_eq:
  fixes xs ys :: "ModuleEntry list"
  assumes "mset xs = mset ys"
  shows "(\<Sum>e\<leftarrow>xs. unat (Size e)) = (\<Sum>e\<leftarrow>ys. unat (Size e))"
proof -
  have "sum_mset (image_mset (\<lambda>e. unat (Size e)) (mset xs)) =
        sum_mset (image_mset (\<lambda>e. unat (Size e)) (mset ys))"
    using assms by simp
  then show ?thesis by (simp add: sum_mset_sum_list flip: mset_map)
qed

lemma nat_sum_aggregated_map:
  assumes "(\<Sum>e\<leftarrow>modules. unat (Size e)) < 2 ^ 64"
  shows "(\<Sum>e\<leftarrow>map snd (aggregated_map w modules). unat (Size e)) = (\<Sum>e\<leftarrow>modules. unat (Size e))"
  using nat_sum_aggregate_fold [of "[]" modules w "\<lambda>entry. getTopLevelPackage (Name entry)"] assms
  by (simp add: aggregated_map_def comp_def)

text \<open>
  C7. Whatever the order in which the map of the rollup is visited, the sizes of the
  rolled-up entries add up, in \<open>uint64\<close>, to the same total as the sizes of the
  entries given; and when the total of the entries given is below \<open>2 ^ 64\<close> the
  two totals are equal as natural numbers, too.
\<close>

theorem rollup_preserves_total:
  assumes "\<And>entries. mset (range_order w entries) = mset entries"
  shows "sum_list (map Size (aggregateByTopLevelPackage w modules)) = sum_list (map Size modules)
     \<and> ((\<Sum>e\<leftarrow>modules. unat (Size e)) < 2 ^ 64 \<longrightarrow>
          (\<Sum>e\<leftarrow>aggregateByTopLevelPackage w modules. unat (Size e))
            = (\<Sum>e\<leftarrow>modules. unat (Size e)))"
proof
  have "sum_list (map Size (aggregateByTopLevelPackage w modules)) =
        sum_list (map Size (range_order w (map snd (aggregated_map w modules))))"
    unfolding aggregateByTopLevelPackage_def
    by (rule sum_list_mset_eq) (rule mset_sort_Slice)
  also have "\<dots> = sum_list (map Size (map snd (aggregated_map w modules)))"
    by (rule sum_list_mset_eq) (rule assms)
  also have "\<dots> = sum_list (map Size modules)"
    by (rule sum_aggregated_map)
  finally show "sum_list (map Size (aggregateByTopLevelPackage w modules)) = sum_list (map Size modules)" .
  show "(\<Sum>e\<leftarrow>modules. unat (Size e)) < 2 ^ 64 \<longrightarrow>
          (\<Sum>e\<leftarrow>aggregateByTopLevelPackage w modules. unat (Size e))
            = (\<Sum>e\<leftarrow>modules. unat (Size e))"
  proof
    assume small: "(\<Sum>e\<leftarrow>modules. unat (Size e)) < 2 ^ 64"
    have "(\<Sum>e\<leftarrow>aggregateByTopLevelPackage w modules. unat (Size e)) =
          (\<Sum>e\<leftarrow>range_order w (map snd (aggregated_map w modules)). unat (Size e))"
      unfolding aggregateByTopLevelPackage_def
      by (rule nat_sum_mset_eq) (rule mset_sort_Slice)
    also have "\<dots> = (\<Sum>e\<leftarrow>map snd (aggregated_map w modules). unat (Size e))"
      by (rule nat_sum_mset_eq) (rule assms)
    also have "\<dots> = (\<Sum>e\<leftarrow>modules. unat (Size e))"
      by (rule nat_sum_aggregated_map [OF small])
    finally show "(\<Sum>e\<leftarrow>aggregateByTopLevelPackage w modules. unat (Size e))
            = (\<Sum>e\<leftarrow>modules. unat (Size e))" .
  qed
qed

theorem rollup_preserves_total_witness:
  "range_order rev_world rollup_input = rev rollup_input
   \<and> (\<Sum>e\<leftarrow>rollup_input. unat (Size e)) < 2 ^ 64
   \<and> sum_list (map Size (aggregateByTopLevelPackage rev_world rollup_input)) = 1250
   \<and> sum_list (map Size rollup_input) = 1250
   \<and> (\<Sum>e\<leftarrow>aggregateByTopLevelPackage rev_world rollup_input. unat (Size e)) = 1250"
proof -
  have perm: "mset (range_order rev_world entries) = mset entries" for entries
    by (simp add: rev_world_def bare_world_def)
  have total: "sum_list (map Size rollup_input) = 1250"
    by (simp add: rollup_input_def)
  have small: "(\<Sum>e\<leftarrow>rollup_input. unat (Size e)) = 1250"
    by (simp add: rollup_input_def)
  have order: "range_order rev_world rollup_input = rev rollup_input"
    by (simp add: rev_world_def bare_world_def)
  from rollup_preserves_total [of rev_world rollup_input, OF perm] order total small
  show ?thesis by simp
qed

end
